theory Spec2Isabelle
  imports Complex_Main
begin

section \<open>Numeric model\<close>

text \<open>
  Python floats are modelled as the reals they approximate: the specification states its
  properties "for all real" inputs, and every claim treated below is about the arithmetic
  structure of the code (guards, thresholds, order of operations), not about binary
  rounding error. The literal \<^verbatim>\<open>1e-9\<close> is the real number \<open>1 / 10 ^ 9\<close>. The
  exceptional values of doubles (overflow to an infinity, NaN) are modelled separately,
  for \<^verbatim>\<open>evaluate_state\<close>, in the section on floating-point overflow.
\<close>

datatype py_error = ZeroDivisionError

text \<open>Python's \<^verbatim>\<open>a / b\<close> on floats: raises on a zero divisor.\<close>

definition truediv :: "real \<Rightarrow> real \<Rightarrow> py_error + real" where
  "truediv a b = (if b = 0 then Inl ZeroDivisionError else Inr (a / b))"

text \<open>
  Python's builtin \<^verbatim>\<open>round(v, ndigits)\<close>: the nearest multiple of \<open>10 ^ -ndigits\<close>,
  a tie going to the even multiple.
\<close>

definition round_half_even :: "real \<Rightarrow> int" where
  "round_half_even v =
     (let f = \<lfloor>v\<rfloor>; d = v - of_int f
      in if d < 1 / 2 then f
         else if 1 / 2 < d then f + 1
         else if even f then f else f + 1)"

definition py_round :: "real \<Rightarrow> nat \<Rightarrow> real" where
  "py_round v ndigits = of_int (round_half_even (v * 10 ^ ndigits)) / 10 ^ ndigits"

section \<open>envelope.py\<close>

record EnvelopeConfig =
  atr :: real
  flip :: real
  put_wall :: real
  call_wall :: real
  risk_proxy_base :: real

text \<open>
  The dictionary returned by \<^verbatim>\<open>evaluate_state\<close>; its keys \<^verbatim>\<open>x\<close>, \<^verbatim>\<open>y\<close>, \<^verbatim>\<open>z\<close>
  carry the prefix \<open>s_\<close> here.
\<close>

record state =
  s_x :: real
  s_y :: real
  s_z :: real
  is_breached :: bool
  is_overspeed :: bool
  is_stall :: bool

text \<open>The three divisors of \<^verbatim>\<open>evaluate_state\<close>, as the source writes them inline.\<close>

definition airspeed_divisor :: "EnvelopeConfig \<Rightarrow> real" where
  "airspeed_divisor config = (if 0 < atr config then atr config else 1 / 10 ^ 9)"

definition load_factor_divisor :: "real \<Rightarrow> real" where
  "load_factor_divisor hv = (if 0 < hv then hv else 1 / 10 ^ 9)"

definition wall_dist :: "EnvelopeConfig \<Rightarrow> real \<Rightarrow> real" where
  "wall_dist config spot =
     (if flip config \<le> spot then \<bar>call_wall config - spot\<bar> else \<bar>put_wall config - spot\<bar>)"

definition max_dist :: "EnvelopeConfig \<Rightarrow> real \<Rightarrow> real" where
  "max_dist config spot =
     (if flip config \<le> spot then \<bar>call_wall config - flip config\<bar>
      else \<bar>put_wall config - flip config\<bar>)"

definition wall_proximity_divisor :: "EnvelopeConfig \<Rightarrow> real \<Rightarrow> real" where
  "wall_proximity_divisor config spot =
     (if 0 < max_dist config spot then max_dist config spot else 1 / 10 ^ 9)"

definition evaluate_state :: "EnvelopeConfig \<Rightarrow> real \<Rightarrow> real \<Rightarrow> real \<Rightarrow> py_error + state" where
  "evaluate_state config spot iv hv =
     (case truediv \<bar>spot - flip config\<bar> (airspeed_divisor config) of
        Inl e \<Rightarrow> Inl e
      | Inr airspeed \<Rightarrow>
     (case truediv iv (load_factor_divisor hv) of
        Inl e \<Rightarrow> Inl e
      | Inr load_factor \<Rightarrow>
     (case truediv (wall_dist config spot) (wall_proximity_divisor config spot) of
        Inl e \<Rightarrow> Inl e
      | Inr wall_proximity \<Rightarrow>
          Inr \<lparr>s_x = airspeed, s_y = load_factor, s_z = wall_proximity,
               is_breached = (call_wall config < spot \<or> spot < put_wall config),
               is_overspeed = (3 < airspeed),
               is_stall = (airspeed < 0.2)\<rparr>)))"

definition get_regime :: "real \<Rightarrow> real \<Rightarrow> string" where
  "get_regime x y =
     (if 2.5 < y \<or> 4.5 < x then ''RUPTURE''
      else if x < 0.3 then ''TAXI''
      else if 1.5 < y \<or> 2.5 < x then ''MANEUVER''
      else ''CRUISE'')"

section \<open>telemetry.py\<close>

text \<open>The record returned by \<^verbatim>\<open>compute_step\<close>; its keys carry the prefix \<open>t_\<close> here.\<close>

record telemetry =
  t_timestamp :: int
  t_spot :: real
  t_iv :: real
  t_hv :: real
  t_x :: real
  t_y :: real
  t_z :: real
  t_regime :: string
  t_flags :: "string list"

definition build_flags :: "state \<Rightarrow> string list" where
  "build_flags st =
     (let flags = [];
          flags = (if is_breached st then flags @ [''BREACH''] else flags);
          flags = (if is_overspeed st then flags @ [''OVERSPEED''] else flags);
          flags = (if is_stall st then flags @ [''STALL''] else flags)
      in flags)"

definition compute_step :: "EnvelopeConfig \<Rightarrow> real \<Rightarrow> real \<Rightarrow> real \<Rightarrow> int \<Rightarrow> py_error + telemetry" where
  "compute_step config spot iv hv timestamp =
     (case evaluate_state config spot iv hv of
        Inl e \<Rightarrow> Inl e
      | Inr st \<Rightarrow>
          (let regime = get_regime (s_x st) (s_y st);
               flags = build_flags st
           in Inr \<lparr>t_timestamp = timestamp,
                    t_spot = py_round spot 2,
                    t_iv = py_round iv 4,
                    t_hv = py_round hv 4,
                    t_x = py_round (s_x st) 3,
                    t_y = py_round (s_y st) 3,
                    t_z = py_round (s_z st) 3,
                    t_regime = regime,
                    t_flags = flags\<rparr>))"

text \<open>The configuration of the specification's concrete scenarios (and of \<^verbatim>\<open>main\<close>).\<close>

definition scenario_config :: EnvelopeConfig where
  "scenario_config =
     \<lparr>atr = 2.8, flip = 692.5, put_wall = 680, call_wall = 700, risk_proxy_base = 1\<rparr>"

section \<open>dynamics.py\<close>

text \<open>
  The module-level random generator is an explicit state: the stream of standard normal
  deviates still to be drawn. \<^verbatim>\<open>random.normalvariate(mu, sigma)\<close> consumes one deviate
  \<open>z\<close> and returns \<open>mu + z * sigma\<close>.
\<close>

type_synonym rng = "nat \<Rightarrow> real"

definition normalvariate :: "real \<Rightarrow> real \<Rightarrow> rng \<Rightarrow> real \<times> rng" where
  "normalvariate mu sigma g = (mu + g 0 * sigma, \<lambda>n. g (Suc n))"

text \<open>Python's \<^verbatim>\<open>range(n)\<close>: empty when \<open>n \<le> 0\<close>.\<close>

definition py_range :: "int \<Rightarrow> int list" where
  "py_range n = [0..n - 1]"

text \<open>
  The attributes of a \<^verbatim>\<open>PathGenerator\<close>; \<^verbatim>\<open>atr\<close> is \<open>gen_atr\<close> here, the name \<open>atr\<close>
  being the configuration's field.
\<close>

record PathGenerator =
  start_spot :: real
  gen_atr :: real
  steps :: int

text \<open>
  A \<^verbatim>\<open>for\<close> loop is \<open>fold body (py_range n)\<close> over the loop's variables: the current
  value, the path built so far and the generator.
\<close>

definition mean_revert_pin_body ::
  "PathGenerator \<Rightarrow> real \<Rightarrow> real \<Rightarrow> real \<Rightarrow> int \<Rightarrow> real \<times> real list \<times> rng \<Rightarrow> real \<times> real list \<times> rng" where
  "mean_revert_pin_body self target intensity noise i =
     (\<lambda>(spot, path, g).
        (let drift = (target - spot) * intensity;
             (e, g) = normalvariate 0 (gen_atr self * noise) g;
             spot = spot + (drift + e)
         in (spot, path @ [spot], g)))"

definition mean_revert_pin ::
  "PathGenerator \<Rightarrow> real \<Rightarrow> real \<Rightarrow> real \<Rightarrow> rng \<Rightarrow> real list \<times> rng" where
  "mean_revert_pin self target intensity noise g =
     (let path = [start_spot self];
          spot = start_spot self;
          (spot, path, g) =
             fold (mean_revert_pin_body self target intensity noise)
               (py_range (steps self - 1)) (spot, path, g)
      in (path, g))"

definition breakout_body ::
  "PathGenerator \<Rightarrow> real \<Rightarrow> real \<Rightarrow> real \<Rightarrow> int \<Rightarrow> real \<times> real list \<times> rng \<Rightarrow> real \<times> real list \<times> rng" where
  "breakout_body self direction speed noise i =
     (\<lambda>(spot, path, g).
        (let (e, g) = normalvariate 0 (gen_atr self * noise) g;
             spot = spot + (direction * gen_atr self * speed + e)
         in (spot, path @ [spot], g)))"

definition breakout ::
  "PathGenerator \<Rightarrow> real \<Rightarrow> real \<Rightarrow> real \<Rightarrow> rng \<Rightarrow> real list \<times> rng" where
  "breakout self direction speed noise g =
     (let path = [start_spot self];
          spot = start_spot self;
          (spot, path, g) =
             fold (breakout_body self direction speed noise)
               (py_range (steps self - 1)) (spot, path, g)
      in (path, g))"

definition false_breakout_body1 ::
  "PathGenerator \<Rightarrow> real \<Rightarrow> int \<Rightarrow> real \<times> real list \<times> rng \<Rightarrow> real \<times> real list \<times> rng" where
  "false_breakout_body1 self target_wall i =
     (\<lambda>(spot, path, g).
        (let drift = (target_wall - spot) * 0.1;
             (e, g) = normalvariate 0 (gen_atr self * 0.1) g;
             spot = spot + (drift + e)
         in (spot, path @ [spot], g)))"

definition false_breakout_body2 ::
  "PathGenerator \<Rightarrow> real \<Rightarrow> int \<Rightarrow> real \<times> real list \<times> rng \<Rightarrow> real \<times> real list \<times> rng" where
  "false_breakout_body2 self recovery i =
     (\<lambda>(spot, path, g).
        (let drift = (start_spot self - spot) * recovery;
             (e, g) = normalvariate 0 (gen_atr self * 0.2) g;
             spot = spot + (drift + e)
         in (spot, path @ [spot], g)))"

definition false_breakout ::
  "PathGenerator \<Rightarrow> real \<Rightarrow> real \<Rightarrow> real \<Rightarrow> rng \<Rightarrow> real list \<times> rng" where
  "false_breakout self target_wall breach_depth recovery g =
     (let path = [];
          spot = start_spot self;
          half = steps self div 2;
          (spot, path, g) =
             fold (false_breakout_body1 self target_wall) (py_range half) (spot, path, g);
          overshoot_target = target_wall + (target_wall - start_spot self) * breach_depth;
          (spot, path, g) =
             fold (false_breakout_body2 self recovery) (py_range (steps self - half))
               (spot, path, g)
      in (path, g))"

text \<open>
  Truthiness of the optional arguments of \<^verbatim>\<open>generate_vol_path\<close>: \<^verbatim>\<open>None\<close> and zero
  are false. \<^verbatim>\<open>a or b\<close> is \<open>a\<close> when \<open>a\<close> is true and \<open>b\<close> otherwise.
\<close>

definition truthy_int :: "int option \<Rightarrow> bool" where
  "truthy_int v = (case v of None \<Rightarrow> False | Some k \<Rightarrow> k \<noteq> 0)"

definition or_real :: "real option \<Rightarrow> real \<Rightarrow> real" where
  "or_real a b = (case a of None \<Rightarrow> b | Some v \<Rightarrow> if v = 0 then b else v)"

definition generate_vol_path_body ::
  "real \<Rightarrow> real \<Rightarrow> int option \<Rightarrow> int \<Rightarrow> real \<times> real list \<times> rng \<Rightarrow> real \<times> real list \<times> rng" where
  "generate_vol_path_body start_iv target shock_at i =
     (\<lambda>(iv, path, g).
        (let iv = (if truthy_int shock_at \<and> Some i = shock_at then iv * 1.5 else iv);
             drift = (target - iv) * 0.05;
             (e, g) = normalvariate 0 (start_iv * 0.05) g;
             iv = iv + (drift + e)
         in (iv, path @ [max 0.01 iv], g)))"

definition generate_vol_path ::
  "PathGenerator \<Rightarrow> real \<Rightarrow> real option \<Rightarrow> int option \<Rightarrow> rng \<Rightarrow> real list \<times> rng" where
  "generate_vol_path self start_iv target_iv shock_at g =
     (let path = [start_iv];
          iv = start_iv;
          target = or_real target_iv start_iv;
          (iv, path, g) =
             fold (generate_vol_path_body start_iv target shock_at)
               (py_range (steps self - 1)) (iv, path, g)
      in (path, g))"

section \<open>envelope.py with floating-point overflow\<close>

text \<open>
  A second embedding of \<^verbatim>\<open>evaluate_state\<close>, for the one property that the exceptional
  values of IEEE doubles decide. A float is a finite real (rounding error is still not
  modelled), an infinity or NaN. An arithmetic result whose magnitude reaches the overflow
  threshold \<open>2\<^sup>1\<^sup>0\<^sup>2\<^sup>4 - 2\<^sup>9\<^sup>7\<^sup>0\<close> is an infinity; Python's float subtraction and division
  do not raise on overflow, and division raises only on a zero divisor. The arguments and
  the configuration are finite floats, hence reals.
\<close>

datatype pyfloat = Fin real | PosInf | NegInf | NaN

definition overflow_threshold :: real where
  "overflow_threshold = 2 ^ 1024 - 2 ^ 970"

definition fl :: "real \<Rightarrow> pyfloat" where
  "fl r = (if overflow_threshold \<le> r then PosInf
           else if r \<le> - overflow_threshold then NegInf
           else Fin r)"

text \<open>\<^verbatim>\<open>abs(a)\<close>.\<close>

fun fabs :: "pyfloat \<Rightarrow> pyfloat" where
  "fabs (Fin r) = Fin \<bar>r\<bar>"
| "fabs PosInf = PosInf"
| "fabs NegInf = PosInf"
| "fabs NaN = NaN"

text \<open>\<^verbatim>\<open>a < b\<close>: false whenever an operand is NaN.\<close>

fun flt :: "pyfloat \<Rightarrow> pyfloat \<Rightarrow> bool" where
  "flt (Fin a) (Fin b) = (a < b)"
| "flt (Fin a) PosInf = True"
| "flt NegInf (Fin b) = True"
| "flt NegInf PosInf = True"
| "flt _ _ = False"

text \<open>\<^verbatim>\<open>a <= b\<close>: false whenever an operand is NaN.\<close>

definition fle :: "pyfloat \<Rightarrow> pyfloat \<Rightarrow> bool" where
  "fle a b = (a \<noteq> NaN \<and> b \<noteq> NaN \<and> \<not> flt b a)"

text \<open>
  \<^verbatim>\<open>a / b\<close>: the zero test comes first and raises; otherwise the IEEE quotient, with
  \<open>inf / inf = nan\<close> and \<open>finite / inf = 0\<close>.
\<close>

fun fdiv :: "pyfloat \<Rightarrow> pyfloat \<Rightarrow> py_error + pyfloat" where
  "fdiv a (Fin b) =
     (if b = 0 then Inl ZeroDivisionError
      else (case a of
              Fin x \<Rightarrow> Inr (fl (x / b))
            | PosInf \<Rightarrow> Inr (if 0 < b then PosInf else NegInf)
            | NegInf \<Rightarrow> Inr (if 0 < b then NegInf else PosInf)
            | NaN \<Rightarrow> Inr NaN))"
| "fdiv (Fin x) PosInf = Inr (Fin 0)"
| "fdiv (Fin x) NegInf = Inr (Fin 0)"
| "fdiv a PosInf = Inr NaN"
| "fdiv a NegInf = Inr NaN"
| "fdiv a NaN = Inr NaN"

record fstate =
  f_x :: pyfloat
  f_y :: pyfloat
  f_z :: pyfloat
  f_is_breached :: bool
  f_is_overspeed :: bool
  f_is_stall :: bool

definition wall_dist_fp :: "EnvelopeConfig \<Rightarrow> real \<Rightarrow> pyfloat" where
  "wall_dist_fp config spot =
     (if flip config \<le> spot then fabs (fl (call_wall config - spot))
      else fabs (fl (put_wall config - spot)))"

definition max_dist_fp :: "EnvelopeConfig \<Rightarrow> real \<Rightarrow> pyfloat" where
  "max_dist_fp config spot =
     (if flip config \<le> spot then fabs (fl (call_wall config - flip config))
      else fabs (fl (put_wall config - flip config)))"

definition wall_proximity_divisor_fp :: "EnvelopeConfig \<Rightarrow> real \<Rightarrow> pyfloat" where
  "wall_proximity_divisor_fp config spot =
     (if flt (Fin 0) (max_dist_fp config spot) then max_dist_fp config spot
      else Fin (1 / 10 ^ 9))"

definition evaluate_state_fp :: "EnvelopeConfig \<Rightarrow> real \<Rightarrow> real \<Rightarrow> real \<Rightarrow> py_error + fstate" where
  "evaluate_state_fp config spot iv hv =
     (case fdiv (fabs (fl (spot - flip config))) (Fin (airspeed_divisor config)) of
        Inl e \<Rightarrow> Inl e
      | Inr airspeed \<Rightarrow>
     (case fdiv (Fin iv) (Fin (load_factor_divisor hv)) of
        Inl e \<Rightarrow> Inl e
      | Inr load_factor \<Rightarrow>
     (case fdiv (wall_dist_fp config spot) (wall_proximity_divisor_fp config spot) of
        Inl e \<Rightarrow> Inl e
      | Inr wall_proximity \<Rightarrow>
          Inr \<lparr>f_x = airspeed, f_y = load_factor, f_z = wall_proximity,
               f_is_breached = (call_wall config < spot \<or> spot < put_wall config),
               f_is_overspeed = flt (Fin 3) airspeed,
               f_is_stall = flt airspeed (Fin 0.2)\<rparr>)))"

text \<open>
  A configuration with \<open>put_wall < flip < call_wall\<close> and \<open>atr > 0\<close>, all finite doubles,
  whose wall distance overflows.
\<close>

definition overflow_config :: EnvelopeConfig where
  "overflow_config =
     \<lparr>atr = 2.8, flip = - (2 ^ 1023), put_wall = - (3 * 2 ^ 1022), call_wall = 2 ^ 1023,
      risk_proxy_base = 1\<rparr>"

section \<open>The envelope never divides by zero\<close>

lemma airspeed_divisor_pos: "0 < airspeed_divisor config"
  by (simp add: airspeed_divisor_def)

lemma load_factor_divisor_pos: "0 < load_factor_divisor hv"
  by (simp add: load_factor_divisor_def)

lemma wall_proximity_divisor_pos: "0 < wall_proximity_divisor config spot"
  by (simp add: wall_proximity_divisor_def)

lemma wall_dist_nonneg: "0 \<le> wall_dist config spot"
  by (simp add: wall_dist_def)

lemma evaluate_state_Inr:
  "evaluate_state config spot iv hv =
     Inr \<lparr>s_x = \<bar>spot - flip config\<bar> / airspeed_divisor config,
          s_y = iv / load_factor_divisor hv,
          s_z = wall_dist config spot / wall_proximity_divisor config spot,
          is_breached = (call_wall config < spot \<or> spot < put_wall config),
          is_overspeed = (3 < \<bar>spot - flip config\<bar> / airspeed_divisor config),
          is_stall = (\<bar>spot - flip config\<bar> / airspeed_divisor config < 0.2)\<rparr>"
  using airspeed_divisor_pos [of config] load_factor_divisor_pos [of hv]
    wall_proximity_divisor_pos [of config spot]
  by (simp add: evaluate_state_def truediv_def)

text \<open>
  Over the reals, where no difference or quotient overflows: the three divisors are
  positive, a state is returned, and its \<open>x\<close> and \<open>z\<close> are non-negative.
\<close>

lemma evaluate_state_total:
  "0 < airspeed_divisor config \<and> 0 < load_factor_divisor hv \<and>
   0 < wall_proximity_divisor config spot \<and>
   (\<exists>st. evaluate_state config spot iv hv = Inr st \<and> 0 \<le> s_x st \<and> 0 \<le> s_z st)"
proof -
  have "0 \<le> \<bar>spot - flip config\<bar> / airspeed_divisor config"
    using airspeed_divisor_pos [of config] by simp
  moreover have "0 \<le> wall_dist config spot / wall_proximity_divisor config spot"
    using wall_proximity_divisor_pos [of config spot] wall_dist_nonneg [of config spot] by simp
  ultimately show ?thesis
    by (simp add: evaluate_state_Inr airspeed_divisor_pos load_factor_divisor_pos
        wall_proximity_divisor_pos)
qed

section \<open>The envelope under floating-point overflow\<close>

lemma overflow_threshold_pos: "0 < overflow_threshold"
proof -
  have "(2::real) ^ 970 < 2 ^ 1024"
    by (rule power_strict_increasing) simp_all
  then show ?thesis by (simp add: overflow_threshold_def)
qed

text \<open>A non-negative float: a finite non-negative real or plus infinity.\<close>

lemma fle_zero_iff: "fle (Fin 0) v \<longleftrightarrow> v = PosInf \<or> (\<exists>r\<ge>0. v = Fin r)"
  by (cases v) (auto simp add: fle_def)

lemma fabs_fl_cases: "fabs (fl d) = PosInf \<or> (\<exists>r\<ge>0. fabs (fl d) = Fin r)"
  by (simp add: fl_def)

lemma fl_nonneg_cases: "0 \<le> q \<Longrightarrow> fl q = PosInf \<or> (\<exists>r\<ge>0. fl q = Fin r)"
  using overflow_threshold_pos by (auto simp add: fl_def)

lemma fdiv_nonneg_fin:
  assumes "v = PosInf \<or> (\<exists>r\<ge>0. v = Fin r)" "0 < p"
  shows "\<exists>q. fdiv v (Fin p) = Inr q \<and> fle (Fin 0) q"
proof -
  from assms(1) show ?thesis
  proof
    assume "v = PosInf"
    with assms(2) show ?thesis by (simp add: fle_def)
  next
    assume "\<exists>r\<ge>0. v = Fin r"
    then obtain r where r: "0 \<le> r" "v = Fin r" by blast
    have "0 \<le> r / p" using r(1) assms(2) by simp
    from fl_nonneg_cases [OF this] have "fle (Fin 0) (fl (r / p))"
      by (simp add: fle_zero_iff)
    with r(2) assms(2) show ?thesis by simp
  qed
qed

lemma wall_dist_fp_cases:
  "wall_dist_fp config spot = PosInf \<or> (\<exists>r\<ge>0. wall_dist_fp config spot = Fin r)"
  unfolding wall_dist_fp_def using fabs_fl_cases by simp

lemma max_dist_fp_cases:
  "max_dist_fp config spot = PosInf \<or> (\<exists>r\<ge>0. max_dist_fp config spot = Fin r)"
  unfolding max_dist_fp_def using fabs_fl_cases by simp

lemma wall_proximity_divisor_fp_cases:
  "(max_dist_fp config spot = PosInf \<and> wall_proximity_divisor_fp config spot = PosInf) \<or>
   (max_dist_fp config spot \<noteq> PosInf \<and> (\<exists>m>0. wall_proximity_divisor_fp config spot = Fin m))"
  using max_dist_fp_cases [of config spot]
proof
  assume "max_dist_fp config spot = PosInf"
  then show ?thesis by (simp add: wall_proximity_divisor_fp_def)
next
  assume "\<exists>r\<ge>0. max_dist_fp config spot = Fin r"
  then obtain r where r: "0 \<le> r" "max_dist_fp config spot = Fin r" by blast
  show ?thesis
  proof (cases "0 < r")
    case True
    with r show ?thesis by (simp add: wall_proximity_divisor_fp_def)
  next
    case False
    have "(0::real) < 1 / 10 ^ 9" by simp
    moreover have "wall_proximity_divisor_fp config spot = Fin (1 / 10 ^ 9)"
      using False r by (simp add: wall_proximity_divisor_fp_def)
    moreover have "max_dist_fp config spot \<noteq> PosInf"
      using r(2) by simp
    ultimately show ?thesis by blast
  qed
qed

lemma wall_proximity_divisor_fp_pos: "flt (Fin 0) (wall_proximity_divisor_fp config spot)"
  using wall_proximity_divisor_fp_cases [of config spot] by auto

lemma wall_proximity_fp:
  "\<exists>z. fdiv (wall_dist_fp config spot) (wall_proximity_divisor_fp config spot) = Inr z \<and>
     (fle (Fin 0) z \<longleftrightarrow>
        \<not> (wall_dist_fp config spot = PosInf \<and> max_dist_fp config spot = PosInf)) \<and>
     (\<not> fle (Fin 0) z \<longleftrightarrow> z = NaN)"
  using wall_proximity_divisor_fp_cases [of config spot]
proof
  assume a: "max_dist_fp config spot = PosInf \<and> wall_proximity_divisor_fp config spot = PosInf"
  from wall_dist_fp_cases [of config spot] show ?thesis
  proof
    assume "wall_dist_fp config spot = PosInf"
    with a show ?thesis by (simp add: fle_def)
  next
    assume "\<exists>r\<ge>0. wall_dist_fp config spot = Fin r"
    with a show ?thesis by (auto simp add: fle_def)
  qed
next
  assume a: "max_dist_fp config spot \<noteq> PosInf \<and>
    (\<exists>m>0. wall_proximity_divisor_fp config spot = Fin m)"
  then obtain m where m: "0 < m" "wall_proximity_divisor_fp config spot = Fin m" by blast
  obtain q where q: "fdiv (wall_dist_fp config spot) (Fin m) = Inr q" "fle (Fin 0) q"
    using fdiv_nonneg_fin [OF wall_dist_fp_cases m(1)] by blast
  have "q \<noteq> NaN" using q(2) by (simp add: fle_def)
  with a m q show ?thesis by simp
qed

lemma airspeed_fp:
  "\<exists>x. fdiv (fabs (fl (spot - flip config))) (Fin (airspeed_divisor config)) = Inr x \<and>
     fle (Fin 0) x"
  by (rule fdiv_nonneg_fin [OF fabs_fl_cases airspeed_divisor_pos])

lemma load_factor_fp: "\<exists>y. fdiv (Fin iv) (Fin (load_factor_divisor hv)) = Inr y"
  using load_factor_divisor_pos [of hv] by simp

lemma max_dist_fp_finite:
  assumes "\<bar>call_wall config - flip config\<bar> < overflow_threshold"
    and "\<bar>put_wall config - flip config\<bar> < overflow_threshold"
  shows "max_dist_fp config spot \<noteq> PosInf"
  using assms by (auto simp add: max_dist_fp_def fl_def)

text \<open>
  C7, as stated, fails on its last part. With the finite doubles \<open>flip = spot = -2\<^sup>1\<^sup>0\<^sup>2\<^sup>3\<close>,
  \<open>put_wall = -3 \<sdot> 2\<^sup>1\<^sup>0\<^sup>2\<^sup>2\<close>, \<open>call_wall = 2\<^sup>1\<^sup>0\<^sup>2\<^sup>3\<close> and \<open>atr = 2.8\<close> (walls bracketing
  the pivot) both \<open>|call_wall - spot|\<close> and \<open>|call_wall - flip|\<close> overflow to infinity: no
  division raises and \<open>x = 0\<close>, but \<open>z = inf / inf\<close> is NaN and \<open>z >= 0\<close> is false.
\<close>

theorem evaluate_state_fp_z_counterexample:
  "map_sum id (\<lambda>st. (f_x st, f_z st, fle (Fin 0) (f_z st)))
     (evaluate_state_fp overflow_config (- (2 ^ 1023)) 0.15 0.12) = Inr (Fin 0, NaN, False)"
  by (simp add: evaluate_state_fp_def wall_dist_fp_def max_dist_fp_def
      wall_proximity_divisor_fp_def airspeed_divisor_def load_factor_divisor_def
      overflow_config_def fl_def overflow_threshold_def fle_def)

text \<open>
  C7, amended. For every configuration, degenerate ones included, and all finite
  \<open>spot\<close>, \<open>iv\<close>, \<open>hv\<close>, \<open>evaluate_state\<close> never fails: each of its three divisors is
  positive (the third possibly infinite), so no division raises and a state is returned,
  and the returned \<open>x\<close> is \<open>\<ge> 0\<close>. The returned \<open>z\<close> is \<open>\<ge> 0\<close> unless both wall distances
  overflow to infinity, and then it is NaN; in particular \<open>z \<ge> 0\<close> whenever the distances
  from the pivot to both walls are below the overflow threshold.
\<close>

theorem evaluate_state_fp_total:
  "0 < airspeed_divisor config \<and> 0 < load_factor_divisor hv \<and>
   flt (Fin 0) (wall_proximity_divisor_fp config spot) \<and>
   (\<exists>st. evaluate_state_fp config spot iv hv = Inr st \<and>
      fle (Fin 0) (f_x st) \<and>
      (fle (Fin 0) (f_z st) \<longleftrightarrow>
         \<not> (wall_dist_fp config spot = PosInf \<and> max_dist_fp config spot = PosInf)) \<and>
      (\<not> fle (Fin 0) (f_z st) \<longleftrightarrow> f_z st = NaN) \<and>
      (\<bar>call_wall config - flip config\<bar> < overflow_threshold \<and>
       \<bar>put_wall config - flip config\<bar> < overflow_threshold \<longrightarrow> fle (Fin 0) (f_z st)))"
proof -
  obtain x where x: "fdiv (fabs (fl (spot - flip config))) (Fin (airspeed_divisor config)) = Inr x"
    "fle (Fin 0) x"
    using airspeed_fp by blast
  obtain y where y: "fdiv (Fin iv) (Fin (load_factor_divisor hv)) = Inr y"
    using load_factor_fp by blast
  obtain z where z: "fdiv (wall_dist_fp config spot) (wall_proximity_divisor_fp config spot) = Inr z"
    "fle (Fin 0) z \<longleftrightarrow>
        \<not> (wall_dist_fp config spot = PosInf \<and> max_dist_fp config spot = PosInf)"
    "\<not> fle (Fin 0) z \<longleftrightarrow> z = NaN"
    using wall_proximity_fp by blast
  have fin: "fle (Fin 0) z"
    if "\<bar>call_wall config - flip config\<bar> < overflow_threshold"
      "\<bar>put_wall config - flip config\<bar> < overflow_threshold"
    using max_dist_fp_finite [OF that] z(2) by simp
  define st where "st = \<lparr>f_x = x, f_y = y, f_z = z,
     f_is_breached = (call_wall config < spot \<or> spot < put_wall config),
     f_is_overspeed = flt (Fin 3) x, f_is_stall = flt x (Fin 0.2)\<rparr>"
  have ev: "evaluate_state_fp config spot iv hv = Inr st"
    unfolding evaluate_state_fp_def x(1) y z(1) st_def by simp
  have sel: "f_x st = x" "f_z st = z" by (simp_all add: st_def)
  have "fle (Fin 0) (f_x st) \<and>
      (fle (Fin 0) (f_z st) \<longleftrightarrow>
         \<not> (wall_dist_fp config spot = PosInf \<and> max_dist_fp config spot = PosInf)) \<and>
      (\<not> fle (Fin 0) (f_z st) \<longleftrightarrow> f_z st = NaN) \<and>
      (\<bar>call_wall config - flip config\<bar> < overflow_threshold \<and>
       \<bar>put_wall config - flip config\<bar> < overflow_threshold \<longrightarrow> fle (Fin 0) (f_z st))"
    unfolding sel using x(2) z(2,3) fin by blast
  with ev show ?thesis
    using airspeed_divisor_pos load_factor_divisor_pos wall_proximity_divisor_fp_pos by blast
qed

lemma overflow_threshold_bounds: "2 ^ 1023 < overflow_threshold" "overflow_threshold \<le> 2 ^ 1024"
  by (simp_all add: overflow_threshold_def)

theorem evaluate_state_fp_total_witness:
  "\<exists>st. evaluate_state_fp scenario_config 750 0.15 0.12 = Inr st \<and>
     fle (Fin 0) (f_x st) \<and> fle (Fin 0) (f_z st)"
proof -
  have "\<bar>call_wall scenario_config - flip scenario_config\<bar> < overflow_threshold"
    "\<bar>put_wall scenario_config - flip scenario_config\<bar> < overflow_threshold"
    using overflow_threshold_bounds(1) by (simp_all add: scenario_config_def)
  with evaluate_state_fp_total [of scenario_config "0.12" 750 "0.15"] show ?thesis
    by blast
qed

text \<open>
  Where nothing overflows, the two embeddings of \<^verbatim>\<open>evaluate_state\<close> return the same
  state.
\<close>

lemma fl_Fin: "\<bar>r\<bar> < overflow_threshold \<Longrightarrow> fl r = Fin r"
  by (auto simp add: fl_def)

lemma evaluate_state_fp_agrees:
  assumes "\<bar>spot - flip config\<bar> < overflow_threshold"
    and "\<bar>spot - flip config\<bar> / airspeed_divisor config < overflow_threshold"
    and "\<bar>iv / load_factor_divisor hv\<bar> < overflow_threshold"
    and "\<bar>call_wall config - spot\<bar> < overflow_threshold"
    and "\<bar>put_wall config - spot\<bar> < overflow_threshold"
    and "\<bar>call_wall config - flip config\<bar> < overflow_threshold"
    and "\<bar>put_wall config - flip config\<bar> < overflow_threshold"
    and "wall_dist config spot / wall_proximity_divisor config spot < overflow_threshold"
  shows "map_sum id (\<lambda>st. (f_x st, f_y st, f_z st, f_is_breached st, f_is_overspeed st,
            f_is_stall st)) (evaluate_state_fp config spot iv hv) =
         map_sum id (\<lambda>st. (Fin (s_x st), Fin (s_y st), Fin (s_z st), is_breached st,
            is_overspeed st, is_stall st)) (evaluate_state config spot iv hv)"
proof -
  have wd: "wall_dist_fp config spot = Fin (wall_dist config spot)"
    using assms(4,5) by (simp add: wall_dist_fp_def wall_dist_def fl_Fin)
  have md: "max_dist_fp config spot = Fin (max_dist config spot)"
    using assms(6,7) by (simp add: max_dist_fp_def max_dist_def fl_Fin)
  have dv: "wall_proximity_divisor_fp config spot = Fin (wall_proximity_divisor config spot)"
    by (simp add: wall_proximity_divisor_fp_def wall_proximity_divisor_def md)
  have x: "fdiv (fabs (fl (spot - flip config))) (Fin (airspeed_divisor config)) =
      Inr (Fin (\<bar>spot - flip config\<bar> / airspeed_divisor config))"
  proof -
    have "\<bar>\<bar>spot - flip config\<bar> / airspeed_divisor config\<bar> < overflow_threshold"
      using assms(2) airspeed_divisor_pos [of config] by simp
    then show ?thesis
      using airspeed_divisor_pos [of config] by (simp add: fl_Fin [OF assms(1)] fl_Fin)
  qed
  have y: "fdiv (Fin iv) (Fin (load_factor_divisor hv)) = Inr (Fin (iv / load_factor_divisor hv))"
    using load_factor_divisor_pos [of hv] by (simp add: fl_Fin [OF assms(3)])
  have z: "fdiv (wall_dist_fp config spot) (wall_proximity_divisor_fp config spot) =
      Inr (Fin (wall_dist config spot / wall_proximity_divisor config spot))"
  proof -
    have "\<bar>wall_dist config spot / wall_proximity_divisor config spot\<bar> < overflow_threshold"
      using assms(8) wall_proximity_divisor_pos [of config spot] wall_dist_nonneg [of config spot]
      by simp
    then show ?thesis
      using wall_proximity_divisor_pos [of config spot] by (simp add: wd dv fl_Fin)
  qed
  show ?thesis
    unfolding evaluate_state_fp_def x y z evaluate_state_Inr by simp
qed

section \<open>The coordinates\<close>

text \<open>
  C3, as stated, fails: with \<open>atr = 10\<^sup>-\<^sup>1\<^sup>0\<close>, which lies strictly between 0 and
  \<open>\<epsilon> = 10\<^sup>-\<^sup>9\<close>, pivot 0 and spot 1 the code divides by \<open>atr\<close> itself and returns
  \<open>x = 10\<^sup>1\<^sup>0\<close>, whereas \<open>|spot - pivot| / max(atr, \<epsilon>)\<close> is \<open>10\<^sup>9\<close>.
\<close>

theorem evaluate_state_x_counterexample:
  "map_sum id s_x (evaluate_state \<lparr>atr = 1 / 10 ^ 10, flip = 0, put_wall = - 1, call_wall = 1,
       risk_proxy_base = 1\<rparr> 1 1 1) = Inr (10 ^ 10) \<and>
   \<bar>1 - 0\<bar> / max (1 / 10 ^ 10) (1 / 10 ^ 9) = (10 ^ 9 :: real)"
  by (simp add: evaluate_state_Inr airspeed_divisor_def)

text \<open>
  C3, amended. For every configuration and all real \<open>spot\<close>, \<open>iv\<close>, \<open>hv\<close>,
  \<open>evaluate_state\<close> returns \<open>x = |spot - pivot| / d\<close> where \<open>d\<close> is \<open>atr\<close> when
  \<open>atr > 0\<close> and \<open>\<epsilon>\<close> otherwise, and \<open>y = iv / e\<close> where \<open>e\<close> is \<open>hv\<close> when \<open>hv > 0\<close>
  and \<open>\<epsilon>\<close> otherwise. The divisor is \<open>max(atr, \<epsilon>)\<close> (respectively \<open>max(hv, \<epsilon>)\<close>)
  whenever \<open>atr\<close> (respectively \<open>hv\<close>) is not strictly between 0 and \<open>\<epsilon>\<close>.
\<close>

theorem evaluate_state_coordinates:
  "\<exists>st. evaluate_state config spot iv hv = Inr st \<and>
     s_x st = \<bar>spot - flip config\<bar> / (if 0 < atr config then atr config else 1 / 10 ^ 9) \<and>
     s_y st = iv / (if 0 < hv then hv else 1 / 10 ^ 9) \<and>
     (atr config \<le> 0 \<or> 1 / 10 ^ 9 \<le> atr config \<longrightarrow>
        s_x st = \<bar>spot - flip config\<bar> / max (atr config) (1 / 10 ^ 9)) \<and>
     (hv \<le> 0 \<or> 1 / 10 ^ 9 \<le> hv \<longrightarrow> s_y st = iv / max hv (1 / 10 ^ 9))"
  by (auto simp add: evaluate_state_Inr airspeed_divisor_def load_factor_divisor_def max_def)

theorem evaluate_state_coordinates_witness:
  "\<exists>st. evaluate_state scenario_config 750 0.15 0.12 = Inr st \<and>
     s_x st = \<bar>750 - 692.5\<bar> / max 2.8 (1 / 10 ^ 9) \<and>
     s_y st = 0.15 / max 0.12 (1 / 10 ^ 9)"
  using evaluate_state_coordinates [of scenario_config 750 "0.15" "0.12"]
  by (auto simp add: scenario_config_def)

section \<open>The regime cascade\<close>

text \<open>
  C4. \<open>get_regime\<close> tests the RUPTURE clause first: every \<open>(x, y)\<close> with \<open>y > 2.5\<close> or
  \<open>x > 4.5\<close> is RUPTURE, although each such point also satisfies the MANEUVER clause
  (\<open>y > 1.5\<close> or \<open>x > 2.5\<close>); in particular \<open>get_regime 5 5\<close> is RUPTURE.
\<close>

theorem get_regime_cascade:
  "(2.5 < y \<or> 4.5 < x \<longrightarrow> get_regime x y = ''RUPTURE'' \<and> (1.5 < y \<or> 2.5 < x)) \<and>
   get_regime 5 5 = ''RUPTURE''"
  by (auto simp add: get_regime_def)

theorem get_regime_cascade_witness:
  "get_regime 5 1 = ''RUPTURE'' \<and> (1.5 < (1::real) \<or> 2.5 < (5::real))"
  using get_regime_cascade [of 1 5] by simp

section \<open>Telemetry records\<close>

lemmas envelope_defs = evaluate_state_def truediv_def airspeed_divisor_def
  load_factor_divisor_def wall_dist_def max_dist_def wall_proximity_divisor_def

text \<open>
  C1, as stated, fails: at the pivot \<open>x = 0 < 0.2\<close>, so \<open>is_stall\<close> holds and the flags
  list of the scenario is not empty.
\<close>

theorem compute_step_scenario_counterexample:
  "map_sum id t_flags (compute_step scenario_config 692.5 0.15 0.12 0) = Inr [''STALL''] \<and>
   [''STALL''] \<noteq> ([] :: string list)"
  by (simp add: compute_step_def evaluate_state_Inr airspeed_divisor_def scenario_config_def
      build_flags_def)

text \<open>
  C1, amended. With \<open>atr = 2.8\<close>, pivot 692.5 and walls 680 and 700, \<open>compute_step\<close> on
  \<open>spot = 692.5\<close>, \<open>iv = 0.15\<close>, \<open>hv = 0.12\<close> yields \<open>x = 0\<close>, \<open>y = 1.25\<close> (and \<open>z = 1\<close>),
  regime TAXI and the flags list \<open>[STALL]\<close>.
\<close>

theorem compute_step_scenario:
  "compute_step scenario_config 692.5 0.15 0.12 ts =
     Inr \<lparr>t_timestamp = ts, t_spot = 692.5, t_iv = 0.15, t_hv = 0.12,
          t_x = 0, t_y = 1.25, t_z = 1, t_regime = ''TAXI'', t_flags = [''STALL'']\<rparr>"
  by (simp add: compute_step_def envelope_defs scenario_config_def get_regime_def build_flags_def
      py_round_def round_half_even_def Let_def)

text \<open>The specification's second scenario, \<open>spot = 750\<close>, for comparison.\<close>

lemma compute_step_scenario_breach:
  "map_sum id (\<lambda>r. (t_regime r, t_flags r)) (compute_step scenario_config 750 0.15 0.12 ts) =
     Inr (''RUPTURE'', [''BREACH'', ''OVERSPEED''])"
  by (simp add: compute_step_def envelope_defs scenario_config_def get_regime_def build_flags_def
      Let_def)






section \<open>Path generators\<close>

lemma length_py_range: "length (py_range n) = nat n"
  by (simp add: py_range_def)

lemma set_py_range: "set (py_range n) = {0..n - 1}"
  by (simp add: py_range_def)

text \<open>
  The three price loops share one shape: each iteration draws one deviate, advances the
  current value by a function \<open>f\<close> of the value and the deviate, and appends the new value.
  Such a loop appends one value per iteration, each computed from its predecessor.
\<close>

lemma fold_walk:
  assumes body: "\<And>i v p g. body i (v, p, g) = (f v (g 0), p @ [f v (g 0)], \<lambda>n. g (Suc n))"
  shows "\<exists>ext. fold body xs (v, p, g) = (last (v # ext), p @ ext, \<lambda>n. g (n + length xs)) \<and>
           length ext = length xs \<and> (\<forall>i<length xs. ext ! i = f ((v # ext) ! i) (g i))"
proof (induction xs arbitrary: v p g)
  case Nil
  show ?case by simp
next
  case (Cons x xs)
  define v1 where "v1 = f v (g 0)"
  obtain ext where
    fd: "fold body xs (v1, p @ [v1], \<lambda>n. g (Suc n)) =
          (last (v1 # ext), (p @ [v1]) @ ext, \<lambda>n. g (Suc (n + length xs)))"
    and len: "length ext = length xs"
    and nth: "\<forall>i<length xs. ext ! i = f ((v1 # ext) ! i) (g (Suc i))"
    using Cons.IH [of v1 "p @ [v1]" "\<lambda>n. g (Suc n)"] by blast
  have "fold body (x # xs) (v, p, g) =
          (last (v # v1 # ext), p @ v1 # ext, \<lambda>n. g (n + length (x # xs)))"
    by (simp add: body fd flip: v1_def)
  moreover have "length (v1 # ext) = length (x # xs)"
    by (simp add: len)
  moreover have "\<forall>i<length (x # xs). (v1 # ext) ! i = f ((v # v1 # ext) ! i) (g i)"
  proof (intro allI impI)
    fix i assume "i < length (x # xs)"
    then show "(v1 # ext) ! i = f ((v # v1 # ext) ! i) (g i)"
      using nth by (cases i) (simp_all add: v1_def)
  qed
  ultimately show ?case by blast
qed

lemma mean_revert_pin_body_step:
  "mean_revert_pin_body self target intensity noise i (v, p, g) =
     (v + ((target - v) * intensity + (0 + g 0 * (gen_atr self * noise))),
      p @ [v + ((target - v) * intensity + (0 + g 0 * (gen_atr self * noise)))],
      \<lambda>n. g (Suc n))"
  by (simp add: mean_revert_pin_body_def normalvariate_def Let_def)

text \<open>
  C5. For every \<open>steps \<ge> 1\<close> and every target, intensity, noise and random draws,
  \<open>mean_revert_pin\<close> returns exactly \<open>steps\<close> elements, the first of which is
  \<open>start_spot\<close> itself: no drift and no noise is applied to it.
\<close>

theorem mean_revert_pin_length_first:
  "1 \<le> steps self \<Longrightarrow>
     int (length (fst (mean_revert_pin self target intensity noise g))) = steps self \<and>
     hd (fst (mean_revert_pin self target intensity noise g)) = start_spot self \<and>
     fst (mean_revert_pin self target intensity noise g) ! 0 = start_spot self"
proof -
  assume s: "1 \<le> steps self"
  define xs where "xs = py_range (steps self - 1)"
  obtain ext where
    fd: "fold (mean_revert_pin_body self target intensity noise) xs
           (start_spot self, [start_spot self], g) =
         (last (start_spot self # ext), [start_spot self] @ ext, \<lambda>n. g (n + length xs))"
    and len: "length ext = length xs"
    using fold_walk [of "mean_revert_pin_body self target intensity noise"
        "\<lambda>v z. v + ((target - v) * intensity + (0 + z * (gen_atr self * noise)))"
        xs "start_spot self" "[start_spot self]" g]
      mean_revert_pin_body_step [of self target intensity noise]
    by blast
  have path: "fst (mean_revert_pin self target intensity noise g) = start_spot self # ext"
    by (simp add: mean_revert_pin_def fd flip: xs_def)
  have "length ext = nat (steps self - 1)"
    by (simp add: len xs_def length_py_range)
  with s show ?thesis by (simp add: path)
qed

theorem mean_revert_pin_length_first_witness:
  "int (length (fst (mean_revert_pin \<lparr>start_spot = 694, gen_atr = 2.8, steps = 3\<rparr> 692.5 0.1 0.2
      (\<lambda>n. 1)))) = 3 \<and>
   hd (fst (mean_revert_pin \<lparr>start_spot = 694, gen_atr = 2.8, steps = 3\<rparr> 692.5 0.1 0.2
      (\<lambda>n. 1))) = 694"
  using mean_revert_pin_length_first [of "\<lparr>start_spot = 694, gen_atr = 2.8, steps = 3\<rparr>"
      "692.5" "0.1" "0.2" "\<lambda>n. 1"]
  by simp

text \<open>The bound on \<open>steps\<close> is needed: with \<open>steps = 0\<close> the list still holds the seed.\<close>

lemma mean_revert_pin_steps_zero:
  "fst (mean_revert_pin \<lparr>start_spot = 694, gen_atr = 2.8, steps = 0\<rparr> 692.5 0.1 0.2 (\<lambda>n. 1)) = [694]"
  by (simp add: mean_revert_pin_def py_range_def)

lemma false_breakout_body1_step:
  "false_breakout_body1 self target_wall i (v, p, g) =
     (v + ((target_wall - v) * 0.1 + (0 + g 0 * (gen_atr self * 0.1))),
      p @ [v + ((target_wall - v) * 0.1 + (0 + g 0 * (gen_atr self * 0.1)))],
      \<lambda>n. g (Suc n))"
  by (simp add: false_breakout_body1_def normalvariate_def Let_def)

lemma false_breakout_body2_step:
  "false_breakout_body2 self recovery i (v, p, g) =
     (v + ((start_spot self - v) * recovery + (0 + g 0 * (gen_atr self * 0.2))),
      p @ [v + ((start_spot self - v) * recovery + (0 + g 0 * (gen_atr self * 0.2)))],
      \<lambda>n. g (Suc n))"
  by (simp add: false_breakout_body2_def normalvariate_def Let_def)

lemma false_breakout_phases:
  "\<exists>ext1 ext2.
     fst (false_breakout self target_wall breach_depth recovery g) = ext1 @ ext2 \<and>
     length ext1 = nat (steps self div 2) \<and>
     length ext2 = nat (steps self - steps self div 2) \<and>
     (\<forall>i<length ext1. ext1 ! i =
        (start_spot self # ext1) ! i +
          ((target_wall - (start_spot self # ext1) ! i) * 0.1 +
           (0 + g i * (gen_atr self * 0.1)))) \<and>
     (\<forall>j<length ext2. ext2 ! j =
        (last (start_spot self # ext1) # ext2) ! j +
          ((start_spot self - (last (start_spot self # ext1) # ext2) ! j) * recovery +
           (0 + g (j + length ext1) * (gen_atr self * 0.2))))"
proof -
  define xs where "xs = py_range (steps self div 2)"
  define ys where "ys = py_range (steps self - steps self div 2)"
  obtain ext1 where
    fd1: "fold (false_breakout_body1 self target_wall) xs (start_spot self, [], g) =
         (last (start_spot self # ext1), [] @ ext1, \<lambda>n. g (n + length xs))"
    and len1: "length ext1 = length xs"
    and nth1: "\<forall>i<length xs. ext1 ! i =
        (start_spot self # ext1) ! i +
          ((target_wall - (start_spot self # ext1) ! i) * 0.1 +
           (0 + g i * (gen_atr self * 0.1)))"
    using fold_walk [of "false_breakout_body1 self target_wall"
        "\<lambda>v z. v + ((target_wall - v) * 0.1 + (0 + z * (gen_atr self * 0.1)))"
        xs "start_spot self" "[]" g]
      false_breakout_body1_step [of self target_wall]
    by blast
  obtain ext2 where
    fd2: "fold (false_breakout_body2 self recovery) ys
           (last (start_spot self # ext1), ext1, \<lambda>n. g (n + length xs)) =
         (last (last (start_spot self # ext1) # ext2), ext1 @ ext2,
          \<lambda>n. g (n + length ys + length xs))"
    and len2: "length ext2 = length ys"
    and nth2: "\<forall>j<length ys. ext2 ! j =
        (last (start_spot self # ext1) # ext2) ! j +
          ((start_spot self - (last (start_spot self # ext1) # ext2) ! j) * recovery +
           (0 + g (j + length xs) * (gen_atr self * 0.2)))"
    using fold_walk [of "false_breakout_body2 self recovery"
        "\<lambda>v z. v + ((start_spot self - v) * recovery + (0 + z * (gen_atr self * 0.2)))"
        ys "last (start_spot self # ext1)" ext1 "\<lambda>n. g (n + length xs)"]
      false_breakout_body2_step [of self recovery]
    by blast
  have "fst (false_breakout self target_wall breach_depth recovery g) = ext1 @ ext2"
    using fd1 fd2 by (simp add: false_breakout_def Let_def flip: xs_def ys_def)
  moreover have "length ext1 = nat (steps self div 2)"
    by (simp add: len1 xs_def length_py_range)
  moreover have "length ext2 = nat (steps self - steps self div 2)"
    by (simp add: len2 ys_def length_py_range)
  ultimately show ?thesis
    using nth1 nth2 len1 len2 by (intro exI [of _ ext1] exI [of _ ext2]) simp
qed

lemma last_conv_nth_Cons: "last (a # xs) = (a # xs) ! length xs"
  using last_conv_nth [of "a # xs"] by simp

text \<open>
  C6. For every \<open>steps \<ge> 1\<close>, \<open>false_breakout\<close> returns exactly \<open>steps\<close> elements. Element
  \<open>i\<close> is one step of a recurrence from its predecessor, the predecessor of element 0
  being \<open>start_spot\<close> (which is not itself an element): for \<open>i < steps div 2\<close> the step
  reverts toward \<open>target_wall\<close> with intensity 0.1 and noise scale 0.1, for the remaining
  indices it reverts toward \<open>start_spot\<close> with intensity \<open>recovery\<close> and noise scale 0.2.
  The overshoot target is not used: the result does not depend on \<open>breach_depth\<close>.
\<close>

theorem false_breakout_shape:
  assumes "1 \<le> steps self"
  shows "int (length (fst (false_breakout self target_wall breach_depth recovery g))) = steps self \<and>
    (\<forall>i<length (fst (false_breakout self target_wall breach_depth recovery g)).
       fst (false_breakout self target_wall breach_depth recovery g) ! i =
         (let prev = (start_spot self # fst (false_breakout self target_wall breach_depth recovery g)) ! i
          in if int i < steps self div 2
             then prev + ((target_wall - prev) * 0.1 + (0 + g i * (gen_atr self * 0.1)))
             else prev + ((start_spot self - prev) * recovery + (0 + g i * (gen_atr self * 0.2))))) \<and>
    false_breakout self target_wall breach_depth recovery g =
      false_breakout self target_wall breach_depth' recovery g"
proof -
  let ?path = "fst (false_breakout self target_wall breach_depth recovery g)"
  let ?s = "start_spot self"
  obtain ext1 ext2 where
    path: "?path = ext1 @ ext2"
    and len1: "length ext1 = nat (steps self div 2)"
    and len2: "length ext2 = nat (steps self - steps self div 2)"
    and nth1: "\<forall>i<length ext1. ext1 ! i =
        (?s # ext1) ! i + ((target_wall - (?s # ext1) ! i) * 0.1 + (0 + g i * (gen_atr self * 0.1)))"
    and nth2: "\<forall>j<length ext2. ext2 ! j =
        (last (?s # ext1) # ext2) ! j +
          ((?s - (last (?s # ext1) # ext2) ! j) * recovery +
           (0 + g (j + length ext1) * (gen_atr self * 0.2)))"
    using false_breakout_phases [of self target_wall breach_depth recovery g] by blast
  have half: "0 \<le> steps self div 2" "steps self div 2 \<le> steps self"
    using assms by simp_all
  have len: "int (length ?path) = steps self"
    using half by (simp add: path len1 len2)
  have rec: "?path ! i =
         (let prev = (?s # ?path) ! i
          in if int i < steps self div 2
             then prev + ((target_wall - prev) * 0.1 + (0 + g i * (gen_atr self * 0.1)))
             else prev + ((?s - prev) * recovery + (0 + g i * (gen_atr self * 0.2))))"
    if i: "i < length ?path" for i
  proof (cases "i < length ext1")
    case True
    then have "(?s # ext1 @ ext2) ! i = (?s # ext1) ! i"
      by (metis append_Cons length_Cons less_Suc_eq nth_append)
    moreover have "int i < steps self div 2"
      using True len1 half by simp
    ultimately show ?thesis
      using nth1 True by (simp add: path nth_append Let_def)
  next
    case False
    define j where "j = i - length ext1"
    have j: "j < length ext2" "i = j + length ext1"
      using False i by (simp_all add: j_def path)
    have prev: "(?s # ext1 @ ext2) ! i = (last (?s # ext1) # ext2) ! j"
    proof (cases j)
      case 0
      then show ?thesis
        using j last_conv_nth_Cons [of ?s ext1]
        by (metis add_0 append_Cons length_Cons lessI nth_Cons_0 nth_append)
    next
      case (Suc k)
      then have "(?s # ext1 @ ext2) ! i = (ext1 @ ext2) ! (k + length ext1)"
        using j by simp
      also have "\<dots> = ext2 ! k"
        by (simp add: nth_append)
      finally show ?thesis using Suc by simp
    qed
    have "\<not> int i < steps self div 2"
      using False len1 half by simp
    moreover have "(ext1 @ ext2) ! i = ext2 ! j"
      using False by (simp add: nth_append j_def)
    ultimately show ?thesis
      using nth2 j prev by (simp add: path Let_def)
  qed
  have "false_breakout self target_wall breach_depth recovery g =
      false_breakout self target_wall breach_depth' recovery g"
    by (simp add: false_breakout_def Let_def)
  with len rec show ?thesis by blast
qed

text \<open>Evaluation of the loops on concrete inputs.\<close>

lemmas dynamics_eval = py_range_def normalvariate_def Let_def upto_rec1

lemma false_breakout_example:
  "fst (false_breakout \<lparr>start_spot = 694, gen_atr = 2.8, steps = 4\<rparr> 700 1.5 0.8 (\<lambda>n. 0)) =
     [694.6, 695.14, 694.228, 694.0456]"
  by (simp add: false_breakout_def false_breakout_body1_def false_breakout_body2_def dynamics_eval)

theorem false_breakout_shape_witness:
  "int (length (fst (false_breakout \<lparr>start_spot = 694, gen_atr = 2.8, steps = 5\<rparr> 700 1.5 0.8 (\<lambda>n. 1)))) = 5 \<and>
   fst (false_breakout \<lparr>start_spot = 694, gen_atr = 2.8, steps = 5\<rparr> 700 1.5 0.8 (\<lambda>n. 1)) ! 0 =
     694 + ((700 - 694) * 0.1 + (0 + 1 * (2.8 * 0.1))) \<and>
   fst (false_breakout \<lparr>start_spot = 694, gen_atr = 2.8, steps = 5\<rparr> 700 1.5 0.8 (\<lambda>n. 1)) ! 2 =
     fst (false_breakout \<lparr>start_spot = 694, gen_atr = 2.8, steps = 5\<rparr> 700 1.5 0.8 (\<lambda>n. 1)) ! 1 +
       ((694 - fst (false_breakout \<lparr>start_spot = 694, gen_atr = 2.8, steps = 5\<rparr> 700 1.5 0.8
            (\<lambda>n. 1)) ! 1) * 0.8 + (0 + 1 * (2.8 * 0.2))) \<and>
   false_breakout \<lparr>start_spot = 694, gen_atr = 2.8, steps = 5\<rparr> 700 1.5 0.8 (\<lambda>n. 1) =
     false_breakout \<lparr>start_spot = 694, gen_atr = 2.8, steps = 5\<rparr> 700 0 0.8 (\<lambda>n. 1)"
proof -
  let ?self = "\<lparr>start_spot = 694, gen_atr = 2.8, steps = 5\<rparr>"
  let ?path = "fst (false_breakout ?self 700 1.5 0.8 (\<lambda>n. 1))"
  have s: "1 \<le> steps ?self" by simp
  note t = false_breakout_shape [of ?self 700 "1.5" "0.8" "\<lambda>n. 1" 0, OF s]
  have len: "length ?path = 5"
    using t [THEN conjunct1] by simp
  note rec = t [THEN conjunct2, THEN conjunct1, rule_format]
  have i0: "0 < length ?path" and i2: "2 < length ?path"
    unfolding len by simp_all
  have "?path ! 0 = 694 + ((700 - 694) * 0.1 + (0 + 1 * (2.8 * 0.1)))"
    using rec [OF i0] by (simp add: Let_def)
  moreover have "?path ! 2 = ?path ! 1 + ((694 - ?path ! 1) * 0.8 + (0 + 1 * (2.8 * 0.2)))"
    using rec [OF i2] by (simp add: Let_def)
  moreover note t [THEN conjunct2, THEN conjunct2]
  ultimately show ?thesis using len by simp
qed

lemma generate_vol_path_body_step:
  "\<exists>iv1 g1. generate_vol_path_body start_iv target shock_at i (iv, p, g) =
     (iv1, p @ [max 0.01 iv1], g1)"
  by (simp add: generate_vol_path_body_def normalvariate_def Let_def)

lemma generate_vol_path_fold:
  "\<exists>iv1 ext g1.
     fold (generate_vol_path_body start_iv target shock_at) xs (iv, p, g) = (iv1, p @ ext, g1) \<and>
     length ext = length xs \<and> (\<forall>v\<in>set ext. 0.01 \<le> v)"
proof (induction xs arbitrary: iv p g)
  case Nil
  show ?case by simp
next
  case (Cons x xs)
  obtain iv1 g1 where
    b: "generate_vol_path_body start_iv target shock_at x (iv, p, g) =
          (iv1, p @ [max 0.01 iv1], g1)"
    using generate_vol_path_body_step by blast
  obtain iv2 ext g2 where
    fd: "fold (generate_vol_path_body start_iv target shock_at) xs (iv1, p @ [max 0.01 iv1], g1) =
          (iv2, (p @ [max 0.01 iv1]) @ ext, g2)"
    and len: "length ext = length xs" and fl: "\<forall>v\<in>set ext. 0.01 \<le> v"
    using Cons.IH [of iv1 "p @ [max 0.01 iv1]" g1] by blast
  have "fold (generate_vol_path_body start_iv target shock_at) (x # xs) (iv, p, g) =
          (iv2, p @ (max 0.01 iv1 # ext), g2)"
    using b fd by simp
  moreover have "length (max 0.01 iv1 # ext) = length (x # xs)"
    by (simp add: len)
  moreover have "\<forall>v\<in>set (max 0.01 iv1 # ext). 0.01 \<le> v"
    using fl by simp
  ultimately show ?case by blast
qed

text \<open>
  C2, as stated, fails: the first element is the start value as given, not floored. With
  start value 0.005 (and no noise) the path is \<open>[0.005, 0.01, 0.01]\<close>, whose first element
  is below 0.01.
\<close>

theorem generate_vol_path_first_counterexample:
  "fst (generate_vol_path \<lparr>start_spot = 694, gen_atr = 2.8, steps = 3\<rparr> 0.005 None None (\<lambda>n. 0)) =
     [0.005, 0.01, 0.01] \<and> (0.005 :: real) < 0.01"
  by (simp add: generate_vol_path_def generate_vol_path_body_def or_real_def truthy_int_def
      dynamics_eval)

text \<open>
  C2, amended. For every start value, target, shock index and random draws, the path of
  \<open>generate_vol_path\<close> starts with the start value unchanged and every later element is
  at least 0.01; so no element is below 0.01 whenever the start value is at least 0.01.
\<close>

theorem generate_vol_path_floor:
  "int (length (fst (generate_vol_path self start_iv target_iv shock_at g))) = max 1 (steps self) \<and>
   hd (fst (generate_vol_path self start_iv target_iv shock_at g)) = start_iv \<and>
   (\<forall>v\<in>set (tl (fst (generate_vol_path self start_iv target_iv shock_at g))). 0.01 \<le> v) \<and>
   (0.01 \<le> start_iv \<longrightarrow>
      (\<forall>v\<in>set (fst (generate_vol_path self start_iv target_iv shock_at g)). 0.01 \<le> v))"
proof -
  obtain iv1 ext g1 where
    fd: "fold (generate_vol_path_body start_iv (or_real target_iv start_iv) shock_at)
           (py_range (steps self - 1)) (start_iv, [start_iv], g) = (iv1, [start_iv] @ ext, g1)"
    and len: "length ext = length (py_range (steps self - 1))"
    and fl: "\<forall>v\<in>set ext. 0.01 \<le> v"
    using generate_vol_path_fold by blast
  have path: "fst (generate_vol_path self start_iv target_iv shock_at g) = start_iv # ext"
    by (simp add: generate_vol_path_def fd)
  have "int (length (start_iv # ext)) = max 1 (steps self)"
    by (simp add: len length_py_range)
  with fl show ?thesis by (simp add: path)
qed

theorem generate_vol_path_floor_witness:
  "hd (fst (generate_vol_path \<lparr>start_spot = 694, gen_atr = 2.8, steps = 3\<rparr> 0.15 None (Some 1)
      (\<lambda>n. - 100))) = 0.15 \<and>
   list_all (\<lambda>v. 0.01 \<le> v)
     (fst (generate_vol_path \<lparr>start_spot = 694, gen_atr = 2.8, steps = 3\<rparr> 0.15 None (Some 1)
        (\<lambda>n. - 100)))"
  using generate_vol_path_floor [of "\<lparr>start_spot = 694, gen_atr = 2.8, steps = 3\<rparr>" "0.15" None
      "Some 1" "\<lambda>n. - 100"]
  by (simp add: list_all_iff)

text \<open>A shock followed by strongly negative draws: the floor holds.\<close>

lemma generate_vol_path_floor_example:
  "fst (generate_vol_path \<lparr>start_spot = 694, gen_atr = 2.8, steps = 3\<rparr> 0.15 None (Some 1)
      (\<lambda>n. - 100)) = [0.15, 0.01, 0.01]"
  by (simp add: generate_vol_path_def generate_vol_path_body_def or_real_def truthy_int_def
      dynamics_eval)

lemma generate_vol_path_body_no_shock:
  assumes "\<not> (1 \<le> k \<and> k \<le> n - 2)" "i \<in> set (py_range (n - 1))"
  shows "generate_vol_path_body start_iv target (Some k) i =
         generate_vol_path_body start_iv target None i"
proof -
  have "0 \<le> i" "i \<le> n - 2"
    using assms(2) by (simp_all add: set_py_range)
  with assms(1) have "\<not> (k \<noteq> 0 \<and> i = k)" by auto
  then show ?thesis
    by (auto simp add: generate_vol_path_body_def truthy_int_def fun_eq_iff)
qed

text \<open>
  C9. With \<open>shock_at = 0\<close> the shock is never applied: on the same random draws the
  result is that of \<open>shock_at = None\<close>. The same holds for every \<open>shock_at\<close> outside
  \<open>1 .. steps - 2\<close>, so a shock can take effect only for an index in that range.
\<close>

theorem generate_vol_path_shock_range:
  "generate_vol_path self start_iv target_iv (Some 0) g =
     generate_vol_path self start_iv target_iv None g \<and>
   (\<not> (1 \<le> k \<and> k \<le> steps self - 2) \<longrightarrow>
      generate_vol_path self start_iv target_iv (Some k) g =
        generate_vol_path self start_iv target_iv None g)"
proof -
  have eq: "generate_vol_path self start_iv target_iv (Some j) g =
        generate_vol_path self start_iv target_iv None g"
    if "\<not> (1 \<le> j \<and> j \<le> steps self - 2)" for j
  proof -
    have "fold (generate_vol_path_body start_iv (or_real target_iv start_iv) (Some j))
            (py_range (steps self - 1)) (start_iv, [start_iv], g) =
          fold (generate_vol_path_body start_iv (or_real target_iv start_iv) None)
            (py_range (steps self - 1)) (start_iv, [start_iv], g)"
      using that by (intro fold_cong refl generate_vol_path_body_no_shock)
    then show ?thesis by (simp add: generate_vol_path_def)
  qed
  have "generate_vol_path self start_iv target_iv (Some 0) g =
     generate_vol_path self start_iv target_iv None g"
    by (rule eq) simp
  with eq show ?thesis by blast
qed

theorem generate_vol_path_shock_range_witness:
  "generate_vol_path \<lparr>start_spot = 694, gen_atr = 2.8, steps = 4\<rparr> 0.2 None (Some 3) (\<lambda>n. 0) =
   generate_vol_path \<lparr>start_spot = 694, gen_atr = 2.8, steps = 4\<rparr> 0.2 None None (\<lambda>n. 0)"
  using generate_vol_path_shock_range [of "\<lparr>start_spot = 694, gen_atr = 2.8, steps = 4\<rparr>" "0.2"
      None "\<lambda>n. 0" 3]
  by simp

text \<open>Inside the range the shock does take effect (here \<open>steps - 2 = 2\<close>).\<close>

lemma generate_vol_path_shock_examples:
  "fst (generate_vol_path \<lparr>start_spot = 694, gen_atr = 2.8, steps = 4\<rparr> 0.2 None None (\<lambda>n. 0)) =
     [0.2, 0.2, 0.2, 0.2]"
  "fst (generate_vol_path \<lparr>start_spot = 694, gen_atr = 2.8, steps = 4\<rparr> 0.2 None (Some 1) (\<lambda>n. 0)) =
     [0.2, 0.2, 0.295, 0.29025]"
  "fst (generate_vol_path \<lparr>start_spot = 694, gen_atr = 2.8, steps = 4\<rparr> 0.2 None (Some 2) (\<lambda>n. 0)) =
     [0.2, 0.2, 0.2, 0.295]"
  by (simp_all add: generate_vol_path_def generate_vol_path_body_def or_real_def truthy_int_def
      dynamics_eval)

text \<open>
  C10. With \<open>target_iv = 0.0\<close> the drift target is \<open>start_iv\<close>: on the same random draws
  the result is that of \<open>target_iv = None\<close>.
\<close>

theorem generate_vol_path_zero_target:
  "generate_vol_path self start_iv (Some 0) shock_at g =
     generate_vol_path self start_iv None shock_at g \<and>
   or_real (Some 0) start_iv = start_iv"
  by (simp add: generate_vol_path_def or_real_def)

text \<open>A zero target is not reverted toward, a non-zero one is.\<close>

lemma generate_vol_path_zero_target_example:
  "fst (generate_vol_path \<lparr>start_spot = 694, gen_atr = 2.8, steps = 3\<rparr> 0.2 (Some 0) None (\<lambda>n. 0)) =
     [0.2, 0.2, 0.2]"
  "fst (generate_vol_path \<lparr>start_spot = 694, gen_atr = 2.8, steps = 3\<rparr> 0.2 (Some 0.1) None (\<lambda>n. 0)) =
     [0.2, 0.195, 0.19025]"
  by (simp_all add: generate_vol_path_def generate_vol_path_body_def or_real_def truthy_int_def
      dynamics_eval)

end
